theory Spec2Isabelle
  imports Complex_Main
begin

section \<open>Python primitives used by the fluorescence task\<close>

text \<open>
  Every exception the modelled code can raise is a value of \<open>error\<close>; a function that
  may raise returns \<open>error + 'a\<close> with \<open>Inl\<close> for the exception.
\<close>

datatype error =
    IndexError | KeyError | AttributeError | ZeroDivisionError | StopIteration
  | RuntimeError | FileNotFoundError | FileExistsError | NotADirectoryError
  | IsADirectoryError | UnpicklingError | ValueError

text \<open>
  \<open>xs[i]\<close> on a Python list: an index from \<open>-len(xs)\<close> to \<open>-1\<close> is taken
  from the end, one outside \<open>-len(xs) .. len(xs) - 1\<close> raises.
\<close>

definition py_index :: "'a list \<Rightarrow> int \<Rightarrow> error + 'a" where
  "py_index xs i =
     (if 0 \<le> i \<and> i < int (length xs) then Inr (xs ! nat i)
      else if - int (length xs) \<le> i \<and> i < 0 then Inr (xs ! nat (int (length xs) + i))
      else Inl IndexError)"

text \<open>\<open>xs[:n]\<close>: a negative bound counts from the end, and nothing is ever raised.\<close>

definition py_slice_to :: "'a list \<Rightarrow> int \<Rightarrow> 'a list" where
  "py_slice_to xs n =
     (if 0 \<le> n then take (nat n) xs else take (nat (int (length xs) + n)) xs)"

text \<open>\<open>a // b\<close> on Python integers (floor division, as \<open>div\<close> on \<open>int\<close>).\<close>

definition py_floordiv :: "int \<Rightarrow> int \<Rightarrow> error + int" where
  "py_floordiv a b = (if b = 0 then Inl ZeroDivisionError else Inr (a div b))"

text \<open>\<open>s.split(c)\<close> for a one-character separator.\<close>

fun str_split :: "char \<Rightarrow> string \<Rightarrow> string list" where
  "str_split c [] = [[]]"
| "str_split c (x # xs) =
     (if x = c then [] # str_split c xs
      else (case str_split c xs of [] \<Rightarrow> [[x]] | l # ls \<Rightarrow> (x # l) # ls))"

text \<open>\<open>str(n)\<close> for a Python integer.\<close>

definition digit_char :: "nat \<Rightarrow> char" where
  "digit_char d = ''0123456789'' ! d"

fun str_nat :: "nat \<Rightarrow> string" where
  "str_nat n = (if n < 10 then [digit_char n] else str_nat (n div 10) @ [digit_char (n mod 10)])"

declare str_nat.simps [simp del]

definition str_int :: "int \<Rightarrow> string" where
  "str_int i = (if i < 0 then CHR ''-'' # str_nat (nat (- i)) else str_nat (nat i))"

section \<open>Tensors\<close>

text \<open>
  The token arrays of the task are one- or two-dimensional. A batch of tensors (the
  leading axis that \<open>pad_sequences\<close> and \<open>torch.stack\<close> add) is a list of tensors.
\<close>

datatype 'a tensor = Vec "'a list" | Mat "'a list list"

fun rows_of :: "'a tensor \<Rightarrow> 'a list list" where
  "rows_of (Vec xs) = [xs]"
| "rows_of (Mat rs) = rs"

definition width :: "'a list list \<Rightarrow> nat" where
  "width rs = (case rs of [] \<Rightarrow> 0 | r # _ \<Rightarrow> length r)"

text \<open>\<open>t.shape\<close> and \<open>t.size(-1)\<close>.\<close>

fun shape :: "'a tensor \<Rightarrow> nat list" where
  "shape (Vec xs) = [length xs]"
| "shape (Mat rs) = [length rs, width rs]"

fun size_last :: "'a tensor \<Rightarrow> nat" where
  "size_last (Vec xs) = length xs"
| "size_last (Mat rs) = width rs"

text \<open>
  \<open>torch.stack(rows, 0)\<close> on one-dimensional tensors: raises on an empty list and on
  rows of different lengths.
\<close>

definition torch_stack :: "'a list list \<Rightarrow> error + 'a list list" where
  "torch_stack rs =
     (case rs of
        [] \<Rightarrow> Inl RuntimeError
      | r # rest \<Rightarrow>
          if list_all (\<lambda>x. length x = length r) rest then Inr rs else Inl RuntimeError)"

text \<open>
  \<open>torch.cat([t.unsqueeze(0), m], 0)\<close> for a one-dimensional \<open>t\<close> and a
  two-dimensional \<open>m\<close>: the widths must agree.
\<close>

definition torch_cat_row :: "'a list \<Rightarrow> 'a list list \<Rightarrow> error + 'a list list" where
  "torch_cat_row t m =
     (if list_all (\<lambda>r. length r = length t) m then Inr (t # m) else Inl RuntimeError)"

section \<open>The file system and the stored embeddings\<close>

text \<open>
  A tensor carries its \<open>requires_grad\<close> flag. The values of an embedding are floats;
  they are only stored, padded and loaded here, never computed with, and are modelled as
  reals.
\<close>

record embedding =
  tdata :: "real tensor"
  requires_grad :: bool

type_synonym path = "string list"

datatype node = Dir | TensorFile embedding | OtherFile

type_synonym filesystem = "path \<Rightarrow> node option"

text \<open>\<open>Path.mkdir(exist_ok=True)\<close>, with \<open>parents=False\<close>.\<close>

definition mkdir_exist_ok :: "path \<Rightarrow> filesystem \<Rightarrow> (error + unit) \<times> filesystem" where
  "mkdir_exist_ok p fs =
     (case fs p of
        Some Dir \<Rightarrow> (Inr (), fs)
      | Some _ \<Rightarrow> (Inl FileExistsError, fs)
      | None \<Rightarrow>
          (case fs (butlast p) of
             Some Dir \<Rightarrow> (Inr (), fs(p \<mapsto> Dir))
           | Some _ \<Rightarrow> (Inl NotADirectoryError, fs)
           | None \<Rightarrow> (Inl FileNotFoundError, fs)))"

text \<open>\<open>Path.exists()\<close>.\<close>

definition path_exists :: "filesystem \<Rightarrow> path \<Rightarrow> bool" where
  "path_exists fs p = (fs p \<noteq> None)"

text \<open>\<open>torch.load(path)\<close>.\<close>

definition torch_load :: "filesystem \<Rightarrow> path \<Rightarrow> error + embedding" where
  "torch_load fs p =
     (case fs p of
        None \<Rightarrow> Inl FileNotFoundError
      | Some Dir \<Rightarrow> Inl IsADirectoryError
      | Some OtherFile \<Rightarrow> Inl UnpicklingError
      | Some (TensorFile t) \<Rightarrow> Inr t)"

text \<open>\<open>torch.save(emb, str(path))\<close>: the file is opened for writing at \<open>path\<close>.\<close>

definition torch_save :: "embedding \<Rightarrow> path \<Rightarrow> filesystem \<Rightarrow> (error + unit) \<times> filesystem" where
  "torch_save t p fs =
     (case fs p of
        Some Dir \<Rightarrow> (Inl IsADirectoryError, fs)
      | _ \<Rightarrow>
          (case fs (butlast p) of
             Some Dir \<Rightarrow> (Inr (), fs(p \<mapsto> TensorFile t))
           | Some _ \<Rightarrow> (Inl NotADirectoryError, fs)
           | None \<Rightarrow> (Inl FileNotFoundError, fs)))"

section \<open>FluorescenceDataset\<close>

text \<open>
  A record of the data file: \<open>item["primary"]\<close> and \<open>item["log_fluorescence"]\<close>.
  Sequences are strings of one-byte residue letters, so \<open>length\<close> is Python's \<open>len\<close>;
  the fluorescence values are floats, only read and passed on here, and are modelled as
  reals.
\<close>

record item =
  primary :: string
  log_fluorescence :: "real list"

text \<open>
  The fields of a dataset object. Those of the base class (\<open>data_path\<close>, \<open>split\<close>,
  \<open>data\<close>, the tokenizer's \<open>encode\<close> and \<open>pad_idx\<close>, \<open>use_msa\<close>) are given;
  \<open>reference\<close>, \<open>msa\<close> and \<open>aligner\<close> are set by the constructor only in MSA mode,
  so they are optional. The aligner field holds what
  \<open>str(self.aligner.align(reference, sequence)[0])\<close> evaluates to.
\<close>

record dataset =
  data_path :: path
  split :: string
  data :: "item list"
  encode :: "string \<Rightarrow> error + int list"
  pad_idx :: int
  use_msa :: bool
  return_cached_embeddings :: bool
  reference :: "string option"
  msa :: "int list list option"
  aligner :: "(string \<Rightarrow> string \<Rightarrow> error + string) option"

definition task_name :: string where
  "task_name = ''fluorescence''"

definition maybe_align_sequence :: "dataset \<Rightarrow> string \<Rightarrow> error + string" where
  "maybe_align_sequence ds sequence =
     (if \<not> use_msa ds then Inr sequence
      else
        (case reference ds of
           None \<Rightarrow> Inl AttributeError
         | Some r \<Rightarrow>
             if length sequence = length r then Inr sequence
             else
               (case aligner ds of
                  None \<Rightarrow> Inl AttributeError
                | Some align \<Rightarrow>
                    (case align r sequence of
                       Inl e \<Rightarrow> Inl e
                     | Inr printed \<Rightarrow> py_index (str_split (CHR 0x0A) printed) 2))))"

text \<open>
  The cache file of an example. The directory is created on the way, by
  \<open>mkdir(exist_ok=True)\<close>; a path is the list of its components, so \<open>dir / name\<close> is
  \<open>dir @ [name]\<close>.
\<close>

definition embedding_dir :: "dataset \<Rightarrow> path" where
  "embedding_dir ds = data_path ds @ [task_name, ''embeddings'']"

definition embedding_name :: "dataset \<Rightarrow> int \<Rightarrow> string" where
  "embedding_name ds index =
     split ds @ ''_'' @ str_int index @ (if use_msa ds then ''_msa'' else []) @ ''.pt''"

definition cached_embedding_path :: "dataset \<Rightarrow> int \<Rightarrow> filesystem \<Rightarrow> (error + path) \<times> filesystem" where
  "cached_embedding_path ds index fs =
     (case mkdir_exist_ok (embedding_dir ds) fs of
        (Inl e, fs') \<Rightarrow> (Inl e, fs')
      | (Inr _, fs') \<Rightarrow> (Inr (embedding_dir ds @ [embedding_name ds index]), fs'))"

definition load_cached_embedding :: "dataset \<Rightarrow> int \<Rightarrow> filesystem \<Rightarrow> (error + embedding) \<times> filesystem" where
  "load_cached_embedding ds index fs =
     (case cached_embedding_path ds index fs of
        (Inl e, fs') \<Rightarrow> (Inl e, fs')
      | (Inr p, fs') \<Rightarrow>
          (case torch_load fs' p of
             Inl e \<Rightarrow> (Inl e, fs')
           | Inr emb \<Rightarrow> (Inr (emb\<lparr>requires_grad := False\<rparr>), fs')))"

text \<open>
  The dictionary \<open>__getitem__\<close> returns: \<open>"src_tokens"\<close>, \<open>"log_fluorescence"\<close> and,
  when cached embeddings are returned, \<open>"features"\<close>.
\<close>

record example =
  b_src_tokens :: "int tensor"
  b_log_fluorescence :: real
  b_features :: "embedding option"

definition getitem :: "dataset \<Rightarrow> int \<Rightarrow> filesystem \<Rightarrow> (error + example) \<times> filesystem" where
  "getitem ds index fs =
     (case py_index (data ds) index of
        Inl e \<Rightarrow> (Inl e, fs)
      | Inr it \<Rightarrow>
     (case maybe_align_sequence ds (primary it) of
        Inl e \<Rightarrow> (Inl e, fs)
      | Inr sequence \<Rightarrow>
     (case encode ds sequence of
        Inl e \<Rightarrow> (Inl e, fs)
      | Inr toks \<Rightarrow>
     (case (if use_msa ds
            then (case msa ds of
                    None \<Rightarrow> Inl AttributeError
                  | Some m \<Rightarrow>
                      (case torch_cat_row toks m of Inl e \<Rightarrow> Inl e | Inr rs \<Rightarrow> Inr (Mat rs)))
            else Inr (Vec toks)) of
        Inl e \<Rightarrow> (Inl e, fs)
      | Inr src_tokens \<Rightarrow>
     (case py_index (log_fluorescence it) 0 of
        Inl e \<Rightarrow> (Inl e, fs)
      | Inr v \<Rightarrow>
          if return_cached_embeddings ds then
            (case load_cached_embedding ds index fs of
               (Inl e, fs') \<Rightarrow> (Inl e, fs')
             | (Inr emb, fs') \<Rightarrow>
                 (Inr \<lparr>b_src_tokens = src_tokens, b_log_fluorescence = v,
                       b_features = Some emb\<rparr>, fs'))
          else
            (Inr \<lparr>b_src_tokens = src_tokens, b_log_fluorescence = v, b_features = None\<rparr>,
             fs))))))"

subsection \<open>Batching\<close>

text \<open>
  Right-padding a row to a width, and an array to a number of rows and a width; the rank
  of an array; the maximum of a list of sizes.
\<close>

definition pad_row :: "nat \<Rightarrow> 'a \<Rightarrow> 'a list \<Rightarrow> 'a list" where
  "pad_row w c xs = xs @ replicate (w - length xs) c"

fun pad_to :: "nat \<Rightarrow> nat \<Rightarrow> 'a \<Rightarrow> 'a tensor \<Rightarrow> 'a tensor" where
  "pad_to h w c (Vec xs) = Vec (pad_row w c xs)"
| "pad_to h w c (Mat rs) =
     Mat (map (pad_row w c) rs @ replicate (h - length rs) (replicate w c))"

fun ndim :: "'a tensor \<Rightarrow> nat" where
  "ndim (Vec xs) = 1"
| "ndim (Mat rs) = 2"

definition max_list :: "nat list \<Rightarrow> nat" where
  "max_list ns = foldr max ns 0"

text \<open>
  Modelled from the spec: \<open>pad_sequences\<close> of \<open>tape.utils\<close> is not among the sources.
  The spec has it right-pad every array to the batch's maximum length with the given
  padding value; here every axis of a one- or two-dimensional array is padded to the
  maximum over the batch, and an empty batch and arrays of different rank are refused.
\<close>

definition pad_sequences :: "'a tensor list \<Rightarrow> 'a \<Rightarrow> error + 'a tensor list" where
  "pad_sequences ts c =
     (case ts of
        [] \<Rightarrow> Inl ValueError
      | t # rest \<Rightarrow>
          if list_all (\<lambda>u. ndim u = ndim t) rest
          then Inr (map (pad_to (max_list (map (\<lambda>u. length (rows_of u)) ts))
                                (max_list (map size_last ts)) c) ts)
          else Inl ValueError)"

text \<open>
  Two notions for stating what a collated batch looks like. The arrays of a batch have
  one rank; and \<open>t'\<close> is \<open>t\<close> right-padded with \<open>c\<close> to \<open>h\<close> rows of width \<open>w\<close>
  when it has the rank of \<open>t\<close>, exactly \<open>h\<close> rows and that width, every row of \<open>t\<close>
  is the row of \<open>t'\<close> at its place followed by \<open>c\<close> only, and the rows that \<open>t\<close>
  does not have hold \<open>c\<close> only. (A one-dimensional array is one row.)
\<close>

definition same_rank :: "'a tensor list \<Rightarrow> bool" where
  "same_rank ts = list_all (\<lambda>t. ndim t = ndim (hd ts)) ts"

definition padded_from :: "'a \<Rightarrow> nat \<Rightarrow> nat \<Rightarrow> 'a tensor \<Rightarrow> 'a tensor \<Rightarrow> bool" where
  "padded_from c h w t t' =
     (ndim t' = ndim t \<and> size_last t' = w \<and> length (rows_of t') = h
      \<and> length (rows_of t) \<le> h
      \<and> (\<forall>k<h.
            rows_of t' ! k =
              (if k < length (rows_of t)
               then rows_of t ! k @ replicate (w - length (rows_of t ! k)) c
               else replicate w c)))"

text \<open>\<open>[el["features"] for el in batch]\<close>: a bundle without the key raises.\<close>

fun features_of :: "example list \<Rightarrow> error + real tensor list" where
  "features_of [] = Inr []"
| "features_of (el # els) =
     (case b_features el of
        None \<Rightarrow> Inl KeyError
      | Some f \<Rightarrow>
          (case features_of els of Inl e \<Rightarrow> Inl e | Inr fs \<Rightarrow> Inr (tdata f # fs)))"

record net_input =
  src_tokens :: "int tensor list"
  src_lengths :: "int list"
  features :: "real tensor list option"

record batch =
  net_input :: net_input
  targets :: "real list list"

text \<open>
  \<open>torch.stack(scalars, 0).unsqueeze(1)\<close>: a column with one entry per example; an
  empty list is refused.
\<close>

definition stack_column :: "real list \<Rightarrow> error + real list list" where
  "stack_column vs = (if vs = [] then Inl RuntimeError else Inr (map (\<lambda>v. [v]) vs))"

definition collate_fn :: "dataset \<Rightarrow> example list \<Rightarrow> error + batch" where
  "collate_fn ds els =
     (case pad_sequences (map b_src_tokens els) (pad_idx ds) of
        Inl e \<Rightarrow> Inl e
      | Inr toks \<Rightarrow>
     (case stack_column (map b_log_fluorescence els) of
        Inl e \<Rightarrow> Inl e
      | Inr col \<Rightarrow>
          if return_cached_embeddings ds then
            (case features_of els of
               Inl e \<Rightarrow> Inl e
             | Inr fs \<Rightarrow>
                 (case pad_sequences fs 0 of
                    Inl e \<Rightarrow> Inl e
                  | Inr padded \<Rightarrow>
                      Inr \<lparr>net_input =
                             \<lparr>src_tokens = toks,
                              src_lengths = map (\<lambda>el. int (size_last (b_src_tokens el))) els,
                              features = Some padded\<rparr>,
                           targets = col\<rparr>))
          else
            Inr \<lparr>net_input =
                   \<lparr>src_tokens = toks,
                    src_lengths = map (\<lambda>el. int (size_last (b_src_tokens el))) els,
                    features = None\<rparr>,
                 targets = col\<rparr>))"

subsection \<open>Populating the cache\<close>

text \<open>
  What \<open>make_embedding\<close> uses of the base model: the devices of its parameters, in
  order, and \<open>extract_features\<close>, which returns a sequence of outputs. Moving a tensor
  to a device changes none of its values and is not modelled. The world is the file
  system together with counters of the feature extractions run and of the files saved.
\<close>

record base_model =
  parameter_devices :: "string list"
  extract_features :: "net_input \<Rightarrow> error + embedding list"

record world =
  files :: filesystem
  extractions :: nat
  saves :: nat

definition make_embedding :: "dataset \<Rightarrow> base_model \<Rightarrow> int \<Rightarrow> world \<Rightarrow> (error + unit) \<times> world" where
  "make_embedding ds bm index w =
     (case parameter_devices bm of
        [] \<Rightarrow> (Inl StopIteration, w)
      | device # _ \<Rightarrow>
     (case cached_embedding_path ds index (files w) of
        (Inl e, fs1) \<Rightarrow> (Inl e, w\<lparr>files := fs1\<rparr>)
      | (Inr p, fs1) \<Rightarrow>
          if path_exists fs1 p then (Inr (), w\<lparr>files := fs1\<rparr>)
          else
     (case getitem ds index fs1 of
        (Inl e, fs2) \<Rightarrow> (Inl e, w\<lparr>files := fs2\<rparr>)
      | (Inr el, fs2) \<Rightarrow>
     (case collate_fn ds [el] of
        Inl e \<Rightarrow> (Inl e, w\<lparr>files := fs2\<rparr>)
      | Inr b \<Rightarrow>
     (case extract_features bm (net_input b) of
        Inl e \<Rightarrow> (Inl e, w\<lparr>files := fs2, extractions := extractions w + 1\<rparr>)
      | Inr outs \<Rightarrow>
     (case py_index outs 0 of
        Inl e \<Rightarrow> (Inl e, w\<lparr>files := fs2, extractions := extractions w + 1\<rparr>)
      | Inr emb \<Rightarrow>
     (case torch_save emb p fs2 of
        (Inl e, fs3) \<Rightarrow>
          (Inl e, w\<lparr>files := fs3, extractions := extractions w + 1, saves := saves w + 1\<rparr>)
      | (Inr _, fs3) \<Rightarrow>
          (Inr (), w\<lparr>files := fs3, extractions := extractions w + 1,
                      saves := saves w + 1\<rparr>))))))))"

subsection \<open>Construction in MSA mode\<close>

text \<open>\<open>[self.tokenizer.encode(seq) for _, seq in sequences]\<close>.\<close>

fun encode_all :: "(string \<Rightarrow> error + int list) \<Rightarrow> (string \<times> string) list \<Rightarrow> error + int list list" where
  "encode_all enc [] = Inr []"
| "encode_all enc (hs # rest) =
     (case enc (snd hs) of
        Inl e \<Rightarrow> Inl e
      | Inr t \<Rightarrow> (case encode_all enc rest of Inl e \<Rightarrow> Inl e | Inr ts \<Rightarrow> Inr (t # ts)))"

text \<open>
  The part of \<open>__init__\<close> after the base class has set its fields (the argument
  \<open>base\<close>). \<open>parse_fasta\<close> and \<open>hhfilter_sequences\<close> of \<open>tape.utils\<close> and the
  Biopython aligner are not among the sources: the parsed sequences of the MSA file,
  the filter and the aligner are arguments.
\<close>

definition dataset_init ::
  "dataset \<Rightarrow> int \<Rightarrow> string list \<Rightarrow> (string list \<Rightarrow> int \<Rightarrow> error + (string \<times> string) list)
     \<Rightarrow> (string \<Rightarrow> string \<Rightarrow> error + string) \<Rightarrow> error + dataset" where
  "dataset_init base max_tokens_per_msa msa_seqs hhfilter_sequences pairwise_aligner =
     (if use_msa base then
        (case py_index msa_seqs 0 of
           Inl e \<Rightarrow> Inl e
         | Inr ref \<Rightarrow>
        (case py_index (data base) 0 of
           Inl e \<Rightarrow> Inl e
         | Inr first \<Rightarrow>
        (case encode base (primary first) of
           Inl e \<Rightarrow> Inl e
         | Inr toks0 \<Rightarrow>
        (case py_floordiv max_tokens_per_msa (int (length toks0)) of
           Inl e \<Rightarrow> Inl e
         | Inr max_num_sequences \<Rightarrow>
        (case hhfilter_sequences msa_seqs (max_num_sequences - 1) of
           Inl e \<Rightarrow> Inl e
         | Inr sequences \<Rightarrow>
        (case encode_all (encode base) (py_slice_to sequences (max_num_sequences - 1)) of
           Inl e \<Rightarrow> Inl e
         | Inr rows \<Rightarrow>
        (case torch_stack rows of
           Inl e \<Rightarrow> Inl e
         | Inr tokens \<Rightarrow>
             Inr (base\<lparr>reference := Some ref, msa := Some tokens,
                       aligner := Some pairwise_aligner\<rparr>))))))))
      else Inr (base\<lparr>reference := None, msa := None, aligner := None\<rparr>))"

section \<open>FluorescencePredictor: the attention mask\<close>

text \<open>
  Modelled from the spec: \<open>seqlen_mask\<close> of \<open>tape.utils\<close> is not among the sources.
  The spec has it mark, for each example, the positions below the example's valid
  length, over the feature length.
\<close>

definition seqlen_mask :: "nat \<Rightarrow> int list \<Rightarrow> bool list list" where
  "seqlen_mask feat_len seqlens = map (\<lambda>n. map (\<lambda>j. int j < n) [0..<feat_len]) seqlens"

text \<open>\<open>scores.masked_fill(m, v)\<close> for scores and a mask of one shape.\<close>

definition masked_fill :: "real list list \<Rightarrow> bool list list \<Rightarrow> real \<Rightarrow> real list list" where
  "masked_fill scores m v =
     map (\<lambda>(row, mrow). map (\<lambda>(s, b). if b then v else s) (zip row mrow)) (zip scores m)"

text \<open>\<open>t.size(1)\<close> of a batch: the first axis of its examples.\<close>

definition size1 :: "'a tensor list \<Rightarrow> nat" where
  "size1 ts = (case ts of [] \<Rightarrow> 0 | t # _ \<Rightarrow> hd (shape t))"

text \<open>
  The predictor: the base model's feature extraction, used when no features are passed,
  and the linear layer \<open>compute_attention_weights\<close>, which maps the feature vector of a
  position to a score. Features have shape \<open>B x L x D\<close>.
\<close>

record predictor =
  base_extract :: "int tensor list \<Rightarrow> int list \<Rightarrow> error + real list list list"
  compute_attention_weights :: "real list \<Rightarrow> real"

text \<open>
  \<open>forward\<close> up to and including \<open>masked_fill\<close>: the attention scores that the softmax
  is applied to. The softmax, the dropout, the pooling and the MLP that follow are
  floating-point computations on this result and raise nothing.
\<close>

definition forward_scores ::
  "predictor \<Rightarrow> int tensor list \<Rightarrow> int list \<Rightarrow> real list list list option \<Rightarrow> error + real list list" where
  "forward_scores m toks lens feats_opt =
     (case (case feats_opt of None \<Rightarrow> base_extract m toks lens | Some f \<Rightarrow> Inr f) of
        Inl e \<Rightarrow> Inl e
      | Inr feats \<Rightarrow>
          (let feat_len = width feats;
               dim = width (concat feats);
               attention_weights =
                 map (map (\<lambda>x. compute_attention_weights m x / sqrt (real dim))) feats;
               mask = seqlen_mask feat_len
                        (map (\<lambda>l. l - (int (size1 toks) - int feat_len)) lens)
           in Inr (masked_fill attention_weights (map (map Not) mask) (- 10000))))"

section \<open>Example objects\<close>

text \<open>
  Concrete objects on which the theorems below are instantiated: a tokenizer that maps a
  residue to its character code, a dataset of two records without and with MSA mode, a
  file system holding the task directory, a base model with one parameter, a batch of
  two examples and a predictor whose scoring layer sums the feature vector. The
  aligner and the filter of the examples are stand-ins: the aligner prints the three lines
  of an alignment with the query padded by gaps on the right, the filter keeps every
  sequence.
\<close>

definition ex_encode :: "string \<Rightarrow> error + int list" where
  "ex_encode s = Inr (map (\<lambda>c. int (of_char c)) s)"

definition ex_items :: "item list" where
  "ex_items = [\<lparr>primary = ''MSKGE'', log_fluorescence = [3.5]\<rparr>,
               \<lparr>primary = ''MSK'', log_fluorescence = [1.25]\<rparr>]"

definition ex_plain :: dataset where
  "ex_plain = \<lparr>data_path = [''data''], split = ''train'', data = ex_items, encode = ex_encode,
      pad_idx = 0, use_msa = False, return_cached_embeddings = False,
      reference = None, msa = None, aligner = None\<rparr>"

definition ex_cached :: dataset where
  "ex_cached = ex_plain\<lparr>return_cached_embeddings := True\<rparr>"

definition ex_aligner :: "string \<Rightarrow> string \<Rightarrow> error + string" where
  "ex_aligner r s =
     Inr (r @ [CHR 0x0A] @ replicate (length r) (CHR ''|'') @ [CHR 0x0A]
          @ s @ replicate (length r - length s) (CHR ''-'') @ [CHR 0x0A])"

definition ex_hhfilter :: "string list \<Rightarrow> int \<Rightarrow> error + (string \<times> string) list" where
  "ex_hhfilter seqs n = Inr (map (\<lambda>s. (''seq'', s)) seqs)"

definition ex_msa :: dataset where
  "ex_msa = ex_plain\<lparr>use_msa := True, reference := Some ''MSKGE'',
      msa := Some [[77, 83, 75, 71, 69], [77, 83, 82, 71, 69]], aligner := Some ex_aligner\<rparr>"

definition ex_fs :: filesystem where
  "ex_fs = [[''data''] \<mapsto> Dir, [''data'', ''fluorescence''] \<mapsto> Dir]"

definition ex_embedding :: embedding where
  "ex_embedding =
     \<lparr>tdata = Mat [[0.5, 1], [2, 0.25], [0, 1], [1, 1], [3, 2]], requires_grad = True\<rparr>"

definition ex_model :: base_model where
  "ex_model = \<lparr>parameter_devices = [''cpu''], extract_features = (\<lambda>n. Inr [ex_embedding])\<rparr>"

definition ex_world :: world where
  "ex_world = \<lparr>files = ex_fs, extractions = 0, saves = 0\<rparr>"

definition ex_fs_cached :: filesystem where
  "ex_fs_cached =
     ex_fs([''data'', ''fluorescence'', ''embeddings''] \<mapsto> Dir,
           [''data'', ''fluorescence'', ''embeddings'', ''train_0.pt''] \<mapsto> TensorFile ex_embedding)"

definition ex_base_msa :: dataset where
  "ex_base_msa = ex_plain\<lparr>use_msa := True\<rparr>"

definition ex_batch :: "example list" where
  "ex_batch =
     [\<lparr>b_src_tokens = Vec [77, 83, 75, 71, 69], b_log_fluorescence = 3.5,
       b_features = Some \<lparr>tdata = Mat [[0.5, 1], [2, 0.25], [0, 1], [1, 1], [3, 2]],
                          requires_grad = False\<rparr>\<rparr>,
      \<lparr>b_src_tokens = Vec [77, 83, 75], b_log_fluorescence = 1.25,
       b_features = Some \<lparr>tdata = Mat [[1, 2], [3, 4], [5, 6]], requires_grad = False\<rparr>\<rparr>]"

definition ex_predictor :: predictor where
  "ex_predictor =
     \<lparr>base_extract = (\<lambda>toks lens. Inl RuntimeError), compute_attention_weights = sum_list\<rparr>"

lemmas ex_defs =
  ex_encode_def ex_items_def ex_plain_def ex_cached_def ex_aligner_def ex_hhfilter_def
  ex_msa_def ex_fs_def ex_embedding_def ex_model_def ex_world_def ex_fs_cached_def
  ex_base_msa_def ex_batch_def ex_predictor_def

lemmas name_defs =
  embedding_dir_def embedding_name_def task_name_def str_int_def str_nat.simps digit_char_def

section \<open>Alignment short-circuit\<close>

text \<open>
  Claim C5. A query whose length equals the reference's length is returned unchanged, and
  so is every query when MSA mode is off (the reference is then not even read).
\<close>

theorem maybe_align_sequence_identity:
  assumes "\<not> use_msa ds \<or> (\<exists>r. reference ds = Some r \<and> length sequence = length r)"
  shows "maybe_align_sequence ds sequence = Inr sequence"
  using assms by (auto simp: maybe_align_sequence_def)

theorem maybe_align_sequence_identity_witness:
  "maybe_align_sequence ex_msa ''MSRGE'' = Inr ''MSRGE''
   \<and> maybe_align_sequence ex_plain ''MSK'' = Inr ''MSK''"
  using maybe_align_sequence_identity [of ex_msa "''MSRGE''"]
        maybe_align_sequence_identity [of ex_plain "''MSK''"]
  by (simp add: ex_defs)

text \<open>
  With lengths that differ, the result is the third line of what the aligner prints
  (here for the stand-in aligner of the examples).
\<close>

lemma ex_maybe_align_sequence_aligned:
  "maybe_align_sequence ex_msa ''MSK'' = Inr ''MSK--''"
  by (simp add: maybe_align_sequence_def py_index_def ex_defs)

section \<open>The embedding cache\<close>

lemma butlast_embedding_dir: "butlast (embedding_dir ds) = data_path ds @ [task_name]"
  by (simp add: embedding_dir_def butlast_append)

lemma cached_embedding_path_present:
  "fs (embedding_dir ds) = Some Dir \<Longrightarrow>
   cached_embedding_path ds index fs = (Inr (embedding_dir ds @ [embedding_name ds index]), fs)"
  by (simp add: cached_embedding_path_def mkdir_exist_ok_def)

lemma cached_embedding_path_absent:
  "fs (embedding_dir ds) = None \<Longrightarrow> fs (data_path ds @ [task_name]) = Some Dir \<Longrightarrow>
   cached_embedding_path ds index fs =
     (Inr (embedding_dir ds @ [embedding_name ds index]), fs(embedding_dir ds \<mapsto> Dir))"
  by (simp add: cached_embedding_path_def mkdir_exist_ok_def butlast_embedding_dir)

text \<open>
  The only effect of deriving a path is the new directory; the call returns the path
  exactly when the directory is there afterwards.
\<close>

lemma cached_embedding_path_cases:
  "cached_embedding_path ds index fs = (r, fs') \<Longrightarrow>
     (fs' = fs \<or> (fs (embedding_dir ds) = None \<and> fs' = fs(embedding_dir ds \<mapsto> Dir)))
   \<and> (r = Inr (embedding_dir ds @ [embedding_name ds index]) \<and> fs' (embedding_dir ds) = Some Dir
       \<or> (\<exists>e. r = Inl e) \<and> fs' = fs)"
  by (auto simp: cached_embedding_path_def mkdir_exist_ok_def
           split: option.splits node.splits prod.splits sum.splits)

lemma cached_embedding_path_file_kept:
  "cached_embedding_path ds index fs = (r, fs') \<Longrightarrow>
   fs' (embedding_dir ds @ [n]) = fs (embedding_dir ds @ [n])"
  by (auto dest!: cached_embedding_path_cases)

lemma load_cached_embedding_fs:
  "load_cached_embedding ds index fs = (r, fs') \<Longrightarrow>
   fs' = snd (cached_embedding_path ds index fs)"
  by (auto simp: load_cached_embedding_def split: prod.splits sum.splits)

lemma getitem_fs:
  "getitem ds index fs = (r, fs') \<Longrightarrow>
   fs' = fs \<or> fs' = snd (cached_embedding_path ds index fs)"
  unfolding getitem_def
  by (auto split: sum.splits if_splits prod.splits option.splits dest: load_cached_embedding_fs)

lemma getitem_fs_present:
  "getitem ds index fs = (r, fs') \<Longrightarrow> fs (embedding_dir ds) = Some Dir \<Longrightarrow> fs' = fs"
  by (auto dest!: getitem_fs simp: cached_embedding_path_present)

lemma torch_save_fs:
  "torch_save t p fs = (r, fs') \<Longrightarrow>
     (r = Inr () \<and> fs' = fs(p \<mapsto> TensorFile t)) \<or> ((\<exists>e. r = Inl e) \<and> fs' = fs)"
  by (auto simp: torch_save_def split: option.splits node.splits)

lemma torch_save_keeps_dir:
  "torch_save emb (embedding_dir ds @ [n]) fs = (r3, fs3) \<Longrightarrow>
   fs3 (embedding_dir ds) = fs (embedding_dir ds)"
  by (auto dest!: torch_save_fs)

lemma make_embedding_dir:
  assumes "parameter_devices bm \<noteq> []"
      and "snd (cached_embedding_path ds index (files w)) (embedding_dir ds) = Some Dir"
  shows "files (snd (make_embedding ds bm index w)) (embedding_dir ds) = Some Dir"
proof -
  let ?p = "embedding_dir ds @ [embedding_name ds index]"
  obtain device rest where dev: "parameter_devices bm = device # rest"
    using assms(1) by (cases "parameter_devices bm") auto
  obtain r fs1 where c: "cached_embedding_path ds index (files w) = (r, fs1)"
    by (cases "cached_embedding_path ds index (files w)")
  with assms(2) have d1: "fs1 (embedding_dir ds) = Some Dir" by simp
  from cached_embedding_path_cases[OF c] have r: "r = Inr ?p \<or> (\<exists>e. r = Inl e)" by auto
  obtain g fs2 where g: "getitem ds index fs1 = (g, fs2)" by (cases "getitem ds index fs1")
  have fs2: "fs2 = fs1" using getitem_fs_present[OF g d1] .
  have sv: "\<And>emb r3 fs3. torch_save emb ?p fs1 = (r3, fs3) \<Longrightarrow> fs3 (embedding_dir ds) = Some Dir"
    using d1 torch_save_keeps_dir by metis
  from r show ?thesis
  proof
    assume "\<exists>e. r = Inl e"
    with dev c d1 show ?thesis by (auto simp: make_embedding_def)
  next
    assume rp: "r = Inr ?p"
    show ?thesis
      using dev c rp d1 g fs2 sv
      by (simp add: make_embedding_def split: sum.splits prod.splits)
  qed
qed

text \<open>
  A cache miss is an error all the way up: reading the embedding raises, so does
  \<open>__getitem__\<close> of a dataset that returns cached embeddings, and so does
  \<open>make_embedding\<close> on such a dataset, which builds its input through
  \<open>__getitem__\<close>. The cache can be populated only through a dataset constructed with
  \<open>return_cached_embeddings\<close> off.
\<close>

lemma load_cached_embedding_miss:
  assumes "fs (embedding_dir ds @ [embedding_name ds index]) = None"
  shows "\<exists>e. fst (load_cached_embedding ds index fs) = Inl e"
proof -
  obtain r fs' where c: "cached_embedding_path ds index fs = (r, fs')"
    by (cases "cached_embedding_path ds index fs")
  from c have kept: "fs' (embedding_dir ds @ [embedding_name ds index]) = None"
    using cached_embedding_path_file_kept assms by metis
  from c have r: "r = Inr (embedding_dir ds @ [embedding_name ds index]) \<or> (\<exists>e. r = Inl e)"
    by (auto dest!: cached_embedding_path_cases)
  show ?thesis
    using c r kept by (auto simp: load_cached_embedding_def torch_load_def)
qed

lemma getitem_cache_miss:
  assumes "return_cached_embeddings ds"
      and "fs (embedding_dir ds @ [embedding_name ds index]) = None"
  shows "\<exists>e. fst (getitem ds index fs) = Inl e"
proof -
  from load_cached_embedding_miss[of fs ds index, OF assms(2)] obtain e fs' where
    "load_cached_embedding ds index fs = (Inl e, fs')"
    by (cases "load_cached_embedding ds index fs") auto
  with assms(1) show ?thesis
    unfolding getitem_def by (simp split: sum.splits)
qed

lemma make_embedding_cache_miss:
  assumes "return_cached_embeddings ds"
      and "files w (embedding_dir ds @ [embedding_name ds index]) = None"
  shows "\<exists>e. fst (make_embedding ds bm index w) = Inl e"
proof (cases "parameter_devices bm")
  case Nil
  then show ?thesis by (simp add: make_embedding_def)
next
  case (Cons device rest)
  obtain r fs1 where c: "cached_embedding_path ds index (files w) = (r, fs1)"
    by (cases "cached_embedding_path ds index (files w)")
  from c have kept: "fs1 (embedding_dir ds @ [embedding_name ds index]) = None"
    using cached_embedding_path_file_kept assms(2) by metis
  from c have r: "r = Inr (embedding_dir ds @ [embedding_name ds index]) \<or> (\<exists>e. r = Inl e)"
    by (auto dest!: cached_embedding_path_cases)
  from getitem_cache_miss[of ds fs1 index, OF assms(1) kept] obtain e fs2 where
    g: "getitem ds index fs1 = (Inl e, fs2)"
    by (cases "getitem ds index fs1") auto
  from r show ?thesis
  proof
    assume "\<exists>e. r = Inl e"
    with Cons c show ?thesis by (auto simp: make_embedding_def)
  next
    assume "r = Inr (embedding_dir ds @ [embedding_name ds index])"
    with Cons c kept g show ?thesis by (simp add: make_embedding_def path_exists_def)
  qed
qed

lemma ex_make_embedding_first:
  "make_embedding ex_plain ex_model 0 ex_world =
     (Inr (), \<lparr>files = ex_fs_cached, extractions = 1, saves = 1\<rparr>)"
  by (simp add: make_embedding_def cached_embedding_path_def mkdir_exist_ok_def name_defs
        path_exists_def getitem_def py_index_def maybe_align_sequence_def collate_fn_def
        pad_sequences_def stack_column_def torch_save_def max_list_def pad_row_def ex_defs)

text \<open>
  Claim C7. \<open>load_cached_embedding\<close> raises when the cache file of the index does not
  exist, and the read leaves the file absent: nothing is computed in its place. When the
  file holds a tensor, the call returns that tensor with \<open>requires_grad\<close> off and leaves
  the file system as it was.
\<close>

theorem load_cached_embedding_miss_hit:
  "(fs (embedding_dir ds @ [embedding_name ds index]) = None \<longrightarrow>
      (\<exists>e. fst (load_cached_embedding ds index fs) = Inl e)
      \<and> snd (load_cached_embedding ds index fs) (embedding_dir ds @ [embedding_name ds index])
          = None)
   \<and> (\<forall>t. fs (embedding_dir ds @ [embedding_name ds index]) = Some (TensorFile t)
          \<and> fs (embedding_dir ds) = Some Dir \<longrightarrow>
        load_cached_embedding ds index fs = (Inr (t\<lparr>requires_grad := False\<rparr>), fs))"
proof (intro conjI impI allI)
  assume miss: "fs (embedding_dir ds @ [embedding_name ds index]) = None"
  obtain r fs' where c: "cached_embedding_path ds index fs = (r, fs')"
    by (cases "cached_embedding_path ds index fs")
  from c have kept: "fs' (embedding_dir ds @ [embedding_name ds index]) = None"
    using cached_embedding_path_file_kept miss by metis
  from c have r: "r = Inr (embedding_dir ds @ [embedding_name ds index]) \<or> (\<exists>e. r = Inl e)"
    by (auto dest!: cached_embedding_path_cases)
  show "\<exists>e. fst (load_cached_embedding ds index fs) = Inl e"
    using c r kept by (auto simp: load_cached_embedding_def torch_load_def)
  show "snd (load_cached_embedding ds index fs) (embedding_dir ds @ [embedding_name ds index])
          = None"
    using c r kept by (auto simp: load_cached_embedding_def torch_load_def)
next
  fix t
  assume "fs (embedding_dir ds @ [embedding_name ds index]) = Some (TensorFile t)
          \<and> fs (embedding_dir ds) = Some Dir"
  then show "load_cached_embedding ds index fs = (Inr (t\<lparr>requires_grad := False\<rparr>), fs)"
    by (simp add: load_cached_embedding_def cached_embedding_path_present torch_load_def)
qed

theorem load_cached_embedding_miss_hit_witness:
  "fst (load_cached_embedding ex_cached 0 ex_fs) = Inl FileNotFoundError
   \<and> load_cached_embedding ex_cached 0 ex_fs_cached =
       (Inr \<lparr>tdata = Mat [[0.5, 1], [2, 0.25], [0, 1], [1, 1], [3, 2]], requires_grad = False\<rparr>,
        ex_fs_cached)"
proof -
  have name: "embedding_dir ex_cached @ [embedding_name ex_cached 0] =
              [''data'', ''fluorescence'', ''embeddings'', ''train_0.pt'']"
    by (simp add: name_defs ex_defs)
  have miss: "ex_fs (embedding_dir ex_cached @ [embedding_name ex_cached 0]) = None"
    unfolding name by (simp add: ex_defs)
  have hit: "ex_fs_cached (embedding_dir ex_cached @ [embedding_name ex_cached 0]) =
               Some (TensorFile ex_embedding)
             \<and> ex_fs_cached (embedding_dir ex_cached) = Some Dir"
    unfolding name by (simp add: name_defs ex_defs)
  have e: "fst (load_cached_embedding ex_cached 0 ex_fs) = Inl FileNotFoundError"
    by (simp add: load_cached_embedding_def cached_embedding_path_def mkdir_exist_ok_def
          torch_load_def name_defs ex_defs)
  from load_cached_embedding_miss_hit [of ex_fs_cached ex_cached 0] hit
  have "load_cached_embedding ex_cached 0 ex_fs_cached =
          (Inr (ex_embedding\<lparr>requires_grad := False\<rparr>), ex_fs_cached)"
    by blast
  moreover from load_cached_embedding_miss_hit [of ex_fs ex_cached 0] miss
  have "\<exists>e. fst (load_cached_embedding ex_cached 0 ex_fs) = Inl e"
    by blast
  ultimately show ?thesis using e by (simp add: ex_embedding_def)
qed

text \<open>
  Claim C6. \<open>make_embedding\<close> is idempotent: after a call that succeeded, a second call
  with the same index succeeds as well and returns the world it was given, so the files
  are as they were and neither a feature extraction nor a save has been run.
\<close>

theorem make_embedding_idempotent:
  assumes "make_embedding ds bm index w = (Inr (), w1)"
  shows "make_embedding ds bm index w1 = (Inr (), w1)"
proof -
  let ?p = "embedding_dir ds @ [embedding_name ds index]"
  from assms obtain device rest where dev: "parameter_devices bm = device # rest"
    by (cases "parameter_devices bm") (auto simp: make_embedding_def)
  obtain r fs1 where c: "cached_embedding_path ds index (files w) = (r, fs1)"
    by (cases "cached_embedding_path ds index (files w)")
  from assms dev c have r: "r = Inr ?p"
    using cached_embedding_path_cases[OF c]
    by (auto simp: make_embedding_def)
  from c r have d1: "fs1 (embedding_dir ds) = Some Dir"
    using cached_embedding_path_cases[OF c] by auto
  have fin: "files w1 (embedding_dir ds) = Some Dir \<and> path_exists (files w1) ?p"
  proof (cases "path_exists fs1 ?p")
    case True
    with assms dev c r have "w1 = w\<lparr>files := fs1\<rparr>" by (simp add: make_embedding_def)
    with True d1 show ?thesis by simp
  next
    case False
    obtain g fs2 where g: "getitem ds index fs1 = (g, fs2)" by (cases "getitem ds index fs1")
    have fs2: "fs2 = fs1" using getitem_fs_present[OF g d1] .
    from assms dev c r False g obtain emb r3 fs3 where
      sv: "torch_save emb ?p fs2 = (r3, fs3)" and w1: "files w1 = fs3" and r3: "r3 = Inr ()"
      by (auto simp: make_embedding_def split: sum.splits prod.splits)
    from torch_save_fs[OF sv] r3 have "fs3 = fs2(?p \<mapsto> TensorFile emb)" by auto
    with w1 fs2 d1 show ?thesis by (simp add: path_exists_def)
  qed
  then have "cached_embedding_path ds index (files w1) = (Inr ?p, files w1)"
    by (simp add: cached_embedding_path_present)
  with fin dev show ?thesis by (simp add: make_embedding_def)
qed

theorem make_embedding_idempotent_witness:
  "make_embedding ex_plain ex_model 0 ex_world =
     (Inr (), \<lparr>files = ex_fs_cached, extractions = 1, saves = 1\<rparr>)
   \<and> make_embedding ex_plain ex_model 0 \<lparr>files = ex_fs_cached, extractions = 1, saves = 1\<rparr> =
     (Inr (), \<lparr>files = ex_fs_cached, extractions = 1, saves = 1\<rparr>)"
  using make_embedding_idempotent [OF ex_make_embedding_first] ex_make_embedding_first
  by simp

text \<open>
  Claim C10. Deriving a cache path creates the embeddings directory when it is absent:
  in a file system that holds the task directory, \<open>cached_embedding_path\<close> returns the
  path together with a file system that differs from the one it was given, namely by the
  new directory, and the directory is there as well after \<open>load_cached_embedding\<close> and
  after \<open>make_embedding\<close> (for a model that has a parameter to read the device from),
  whether or not these calls then raise.
\<close>

theorem cached_embedding_path_creates_dir:
  assumes "fs (embedding_dir ds) = None" and "fs (data_path ds @ [task_name]) = Some Dir"
  shows "cached_embedding_path ds index fs =
           (Inr (embedding_dir ds @ [embedding_name ds index]), fs(embedding_dir ds \<mapsto> Dir))
       \<and> snd (cached_embedding_path ds index fs) \<noteq> fs
       \<and> snd (load_cached_embedding ds index fs) (embedding_dir ds) = Some Dir
       \<and> (parameter_devices bm \<noteq> [] \<longrightarrow>
            files (snd (make_embedding ds bm index (w\<lparr>files := fs\<rparr>))) (embedding_dir ds)
              = Some Dir)"
proof -
  have c: "cached_embedding_path ds index fs =
           (Inr (embedding_dir ds @ [embedding_name ds index]), fs(embedding_dir ds \<mapsto> Dir))"
    using assms by (rule cached_embedding_path_absent)
  have n: "snd (cached_embedding_path ds index fs) \<noteq> fs"
  proof
    assume "snd (cached_embedding_path ds index fs) = fs"
    with c have "fs(embedding_dir ds \<mapsto> Dir) = fs" by simp
    then have "(fs(embedding_dir ds \<mapsto> Dir)) (embedding_dir ds) = fs (embedding_dir ds)"
      by simp
    with assms(1) show False by simp
  qed
  obtain r fs' where l: "load_cached_embedding ds index fs = (r, fs')"
    by (cases "load_cached_embedding ds index fs")
  have ld: "snd (load_cached_embedding ds index fs) (embedding_dir ds) = Some Dir"
    using load_cached_embedding_fs[OF l] l c by simp
  have mk: "parameter_devices bm \<noteq> [] \<longrightarrow>
            files (snd (make_embedding ds bm index (w\<lparr>files := fs\<rparr>))) (embedding_dir ds)
              = Some Dir"
    using make_embedding_dir[of bm ds index "w\<lparr>files := fs\<rparr>"] c by simp
  from c n ld mk show ?thesis by blast
qed

theorem cached_embedding_path_creates_dir_witness:
  "cached_embedding_path ex_cached 7 ex_fs =
     (Inr [''data'', ''fluorescence'', ''embeddings'', ''train_7.pt''],
      ex_fs([''data'', ''fluorescence'', ''embeddings''] \<mapsto> Dir))
   \<and> snd (load_cached_embedding ex_cached 7 ex_fs) [''data'', ''fluorescence'', ''embeddings'']
       = Some Dir
   \<and> files (snd (make_embedding ex_cached ex_model 7 ex_world))
       [''data'', ''fluorescence'', ''embeddings''] = Some Dir"
proof -
  have dir: "embedding_dir ex_cached = [''data'', ''fluorescence'', ''embeddings'']"
    by (simp add: name_defs ex_defs)
  have name: "embedding_name ex_cached 7 = ''train_7.pt''"
    by (simp add: name_defs ex_defs)
  have a1: "ex_fs (embedding_dir ex_cached) = None"
    unfolding dir by (simp add: ex_defs)
  have a2: "ex_fs (data_path ex_cached @ [task_name]) = Some Dir"
    by (simp add: name_defs ex_defs)
  have a3: "parameter_devices ex_model \<noteq> []"
    by (simp add: ex_defs)
  have w: "ex_world\<lparr>files := ex_fs\<rparr> = ex_world"
    by (simp add: ex_world_def)
  from cached_embedding_path_creates_dir [OF a1 a2, of 7 ex_model ex_world] a3
  show ?thesis unfolding dir name w by simp
qed

section \<open>The MSA context block\<close>

lemma encode_all_rows:
  "encode_all enc hss = Inr rows \<Longrightarrow>
   length rows = length hss \<and> (\<forall>r\<in>set rows. \<exists>hs\<in>set hss. enc (snd hs) = Inr r)"
  by (induction hss arbitrary: rows) (auto split: sum.splits)

lemma torch_stack_rows:
  "torch_stack rs = Inr m \<Longrightarrow> m = rs \<and> rs \<noteq> [] \<and> (\<forall>r\<in>set rs. length r = length (hd rs))"
  by (auto simp: torch_stack_def list_all_iff split: list.splits if_splits)

lemma py_slice_to_bound: "0 \<le> n \<Longrightarrow> int (length (py_slice_to xs n)) \<le> n"
  by (simp add: py_slice_to_def)

lemma py_slice_to_subset: "set (py_slice_to xs n) \<subseteq> set xs"
  by (auto simp: py_slice_to_def dest: in_set_takeD)

text \<open>
  What the constructor computes: the number of rows is bounded through the token length
  of the first data record, \<open>self.data[0]["primary"]\<close>, whatever the length of the rows.
\<close>

lemma dataset_init_rows_bound:
  assumes msa_on: "use_msa base"
      and init: "dataset_init base max_tokens_per_msa msa_seqs hhfilter_sequences
                   pairwise_aligner = Inr ds"
      and first: "py_index (data base) 0 = Inr first"
      and toks0: "encode base (primary first) = Inr toks0"
      and budget: "int (length toks0) \<le> max_tokens_per_msa"
  shows "\<exists>rows sequences.
           msa ds = Some rows
         \<and> hhfilter_sequences msa_seqs (max_tokens_per_msa div int (length toks0) - 1)
             = Inr sequences
         \<and> rows \<noteq> []
         \<and> int (length rows) \<le> max_tokens_per_msa div int (length toks0) - 1
         \<and> (\<forall>r\<in>set rows. length r = length (hd rows))
         \<and> (\<forall>r\<in>set rows. \<exists>hs\<in>set sequences. encode base (snd hs) = Inr r)"
proof -
  let ?s = "int (length toks0)"
  let ?n = "max_tokens_per_msa div ?s - 1"
  from init msa_on obtain ref where ref: "py_index msa_seqs 0 = Inr ref"
    by (cases "py_index msa_seqs 0") (simp_all add: dataset_init_def)
  note known = msa_on ref first toks0
  from init known have s0: "?s \<noteq> 0"
    by (cases "?s = 0") (simp_all add: dataset_init_def py_floordiv_def)
  then have spos: "0 < ?s" by simp
  from init known s0 obtain sequences where
    hh: "hhfilter_sequences msa_seqs ?n = Inr sequences"
    by (cases "hhfilter_sequences msa_seqs ?n") (simp_all add: dataset_init_def py_floordiv_def)
  from init known s0 hh obtain rows where
    en: "encode_all (encode base) (py_slice_to sequences ?n) = Inr rows"
    by (cases "encode_all (encode base) (py_slice_to sequences ?n)")
       (simp_all add: dataset_init_def py_floordiv_def)
  from init known s0 hh en obtain tokens where st: "torch_stack rows = Inr tokens"
    by (cases "torch_stack rows") (simp_all add: dataset_init_def py_floordiv_def)
  from init known s0 hh en st
  have "ds = base\<lparr>reference := Some ref, msa := Some tokens,
                    aligner := Some pairwise_aligner\<rparr>"
    by (simp add: dataset_init_def py_floordiv_def)
  then have ds: "msa ds = Some tokens" by simp
  from torch_stack_rows[OF st] have tk: "tokens = rows" "rows \<noteq> []"
    "\<forall>r\<in>set rows. length r = length (hd rows)" by blast+
  from budget spos have "1 \<le> max_tokens_per_msa div ?s"
    using pos_imp_zdiv_pos_iff[of ?s max_tokens_per_msa] by linarith
  then have n0: "0 \<le> ?n" by simp
  from encode_all_rows[OF en] have len: "length rows = length (py_slice_to sequences ?n)"
    and src: "\<forall>r\<in>set rows. \<exists>hs\<in>set (py_slice_to sequences ?n). encode base (snd hs) = Inr r"
    by blast+
  from len py_slice_to_bound[OF n0, of sequences] have bound: "int (length rows) \<le> ?n"
    by simp
  have src': "\<forall>r\<in>set rows. \<exists>hs\<in>set sequences. encode base (snd hs) = Inr r"
  proof
    fix r assume "r \<in> set rows"
    with src obtain hs where
      h: "hs \<in> set (py_slice_to sequences ?n)" "encode base (snd hs) = Inr r"
      by blast
    from h(1) have "hs \<in> set sequences"
      by (rule subsetD [OF py_slice_to_subset])
    with h(2) show "\<exists>hs\<in>set sequences. encode base (snd hs) = Inr r" by blast
  qed
  show ?thesis
  proof (intro exI conjI)
    show "msa ds = Some rows" using ds tk(1) by simp
    show "hhfilter_sequences msa_seqs ?n = Inr sequences" by (rule hh)
    show "rows \<noteq> []" by (rule tk(2))
    show "int (length rows) \<le> ?n" by (rule bound)
    show "\<forall>r\<in>set rows. length r = length (hd rows)" by (rule tk(3))
    show "\<forall>r\<in>set rows. \<exists>hs\<in>set sequences. encode base (snd hs) = Inr r" by (rule src')
  qed
qed

lemma ex_dataset_init:
  "dataset_init ex_base_msa 16 [''MSKGE'', ''MSRGE'', ''MTKGE''] ex_hhfilter ex_aligner = Inr ex_msa"
  by (simp add: dataset_init_def py_index_def py_floordiv_def py_slice_to_def torch_stack_def
        ex_defs)

text \<open>
  A budget below the token length of the first record gives the slice bound \<open>-1\<close>, and
  \<open>sequences[:-1]\<close> keeps all but the last sequence: with a budget of 3 the block has
  two rows of five tokens.
\<close>

lemma ex_dataset_init_negative_slice:
  "dataset_init ex_base_msa 3 [''MSKGE'', ''MSRGE'', ''MTKGE''] ex_hhfilter ex_aligner =
     Inr (ex_base_msa\<lparr>reference := Some ''MSKGE'',
            msa := Some [[77, 83, 75, 71, 69], [77, 83, 82, 71, 69]],
            aligner := Some ex_aligner\<rparr>)"
  by (simp add: dataset_init_def py_index_def py_floordiv_def py_slice_to_def torch_stack_def
        ex_defs)

text \<open>
  Claim C3 is not met by the constructor. The claim bounds the rows by
  \<open>floor(max_tokens_per_msa / reference_token_length) - 1\<close>; the constructor divides the
  budget by the token length of the first data record instead, while the rows it stores
  have the token length of the MSA's sequences. With a budget of 40, a first record of 5
  tokens and an MSA of eight sequences of 7 tokens (the reference first), the stored block
  has 7 rows of 7 tokens: more rows than \<open>40 div 7 - 1 = 4\<close>, and 49 tokens, more than
  the budget, before the query's row is added.
\<close>

theorem dataset_init_over_budget:
  "dataset_init ex_base_msa 40
      [''MSKGEEL'', ''MSRGEEL'', ''MTKGEEL'', ''MSKGDEL'', ''MSKAEEL'', ''MSKGEDL'',
       ''MAKGEEL'', ''MSKGEEV'']
      ex_hhfilter ex_aligner
     = Inr (ex_base_msa\<lparr>reference := Some ''MSKGEEL'',
              msa := Some [[77, 83, 75, 71, 69, 69, 76], [77, 83, 82, 71, 69, 69, 76],
                           [77, 84, 75, 71, 69, 69, 76], [77, 83, 75, 71, 68, 69, 76],
                           [77, 83, 75, 65, 69, 69, 76], [77, 83, 75, 71, 69, 68, 76],
                           [77, 65, 75, 71, 69, 69, 76]],
              aligner := Some ex_aligner\<rparr>)
   \<and> encode ex_base_msa ''MSKGEEL'' = Inr [77, 83, 75, 71, 69, 69, 76]
   \<and> encode ex_base_msa (primary (data ex_base_msa ! 0)) = Inr [77, 83, 75, 71, 69]
   \<and> \<not> int (length [[77, 83, 75, 71, 69, 69, 76], [77, 83, 82, 71, 69, 69, 76],
                      [77, 84, 75, 71, 69, 69, 76], [77, 83, 75, 71, 68, 69, 76],
                      [77, 83, 75, 65, 69, 69, 76], [77, 83, 75, 71, 69, 68, 76],
                      [77, 65, 75, 71, 69, 69, 76 :: int]])
         \<le> 40 div int (length [77, 83, 75, 71, 69, 69, 76 :: int]) - 1
   \<and> 40 < int (length [[77, 83, 75, 71, 69, 69, 76], [77, 83, 82, 71, 69, 69, 76],
                        [77, 84, 75, 71, 69, 69, 76], [77, 83, 75, 71, 68, 69, 76],
                        [77, 83, 75, 65, 69, 69, 76], [77, 83, 75, 71, 69, 68, 76],
                        [77, 65, 75, 71, 69, 69, 76 :: int]])
            * int (length [77, 83, 75, 71, 69, 69, 76 :: int])"
  by (simp add: dataset_init_def py_index_def py_floordiv_def py_slice_to_def torch_stack_def
        ex_defs)

section \<open>Items\<close>

text \<open>
  Claim C4, as stated, fails: with cached embeddings requested (the default) and the
  cache not yet populated, \<open>__getitem__\<close> raises at a valid index instead of returning.
\<close>

theorem getitem_cache_miss_counterexample:
  "0 \<le> (0::int) \<and> (0::int) < int (length (data ex_cached))
   \<and> getitem ex_cached 0 ex_fs =
       (Inl FileNotFoundError, ex_fs([''data'', ''fluorescence'', ''embeddings''] \<mapsto> Dir))"
  by (simp add: getitem_def py_index_def maybe_align_sequence_def load_cached_embedding_def
        cached_embedding_path_def mkdir_exist_ok_def torch_load_def name_defs ex_defs)

text \<open>
  Claim C4, amended. At a valid index whose sequence is aligned and tokenized without
  error and whose record has a target, \<open>__getitem__\<close> returns, provided that the
  embedding is in the cache when cached embeddings are requested and that in MSA mode the
  rows of the context block have the width of the query's token row. In MSA mode the
  tokens returned are the query's token row prepended to the MSA context block, of shape
  \<open>(1 + num_msa_seqs, seq_len)\<close>; otherwise they are the token row of the record's own
  sequence, of shape \<open>(seq_len,)\<close>. With them come the scalar target, the record's
  first value, and, when requested, the cached embedding with \<open>requires_grad\<close> off;
  the file system is left as it was.
\<close>

theorem getitem_shape:
  assumes idx: "0 \<le> index" "index < int (length (data ds))"
      and seq: "maybe_align_sequence ds (primary (data ds ! nat index)) = Inr sequence"
      and enc: "encode ds sequence = Inr toks"
      and tgt: "log_fluorescence (data ds ! nat index) \<noteq> []"
      and blk: "use_msa ds \<longrightarrow> msa ds = Some m \<and> (\<forall>r\<in>set m. length r = length toks)"
      and hit: "return_cached_embeddings ds \<longrightarrow>
                  fs (embedding_dir ds) = Some Dir
                  \<and> fs (embedding_dir ds @ [embedding_name ds index]) = Some (TensorFile t)"
  shows "getitem ds index fs =
           (Inr \<lparr>b_src_tokens = (if use_msa ds then Mat (toks # m) else Vec toks),
                 b_log_fluorescence = hd (log_fluorescence (data ds ! nat index)),
                 b_features = (if return_cached_embeddings ds
                               then Some (t\<lparr>requires_grad := False\<rparr>) else None)\<rparr>, fs)
         \<and> shape (if use_msa ds then Mat (toks # m) else Vec toks) =
             (if use_msa ds then [1 + length m, length toks] else [length toks])
         \<and> (\<not> use_msa ds \<longrightarrow> sequence = primary (data ds ! nat index))"
proof -
  let ?it = "data ds ! nat index"
  from idx have it: "py_index (data ds) index = Inr ?it" by (simp add: py_index_def)
  from tgt have v: "py_index (log_fluorescence ?it) 0 = Inr (hd (log_fluorescence ?it))"
    by (cases "log_fluorescence ?it") (simp_all add: py_index_def)
  have plain: "\<not> use_msa ds \<longrightarrow> sequence = primary ?it"
    using seq by (auto simp: maybe_align_sequence_def)
  define src where "src = (if use_msa ds then Mat (toks # m) else Vec toks)"
  have src: "(if use_msa ds
            then (case msa ds of
                    None \<Rightarrow> Inl AttributeError
                  | Some m \<Rightarrow>
                      (case torch_cat_row toks m of Inl e \<Rightarrow> Inl e | Inr rs \<Rightarrow> Inr (Mat rs)))
            else Inr (Vec toks)) = Inr src"
    using blk by (auto simp: src_def torch_cat_row_def list_all_iff)
  have sh: "shape src = (if use_msa ds then [1 + length m, length toks] else [length toks])"
    by (simp add: src_def width_def)
  have "getitem ds index fs =
       (Inr \<lparr>b_src_tokens = src, b_log_fluorescence = hd (log_fluorescence ?it),
             b_features = (if return_cached_embeddings ds
                           then Some (t\<lparr>requires_grad := False\<rparr>) else None)\<rparr>, fs)"
  proof (cases "return_cached_embeddings ds")
    case False
    then show ?thesis
      unfolding getitem_def by (simp add: it seq enc src v)
  next
    case True
    with hit have
      "fs (embedding_dir ds) = Some Dir"
      "fs (embedding_dir ds @ [embedding_name ds index]) = Some (TensorFile t)" by blast+
    then have ld: "load_cached_embedding ds index fs = (Inr (t\<lparr>requires_grad := False\<rparr>), fs)"
      by (simp add: load_cached_embedding_def cached_embedding_path_present torch_load_def)
    from True show ?thesis
      unfolding getitem_def by (simp add: it seq enc src v ld)
  qed
  with sh plain show ?thesis unfolding src_def by simp
qed

theorem getitem_shape_witness:
  "getitem ex_msa 0 ex_fs =
     (Inr \<lparr>b_src_tokens = Mat [[77, 83, 75, 71, 69], [77, 83, 75, 71, 69], [77, 83, 82, 71, 69]],
           b_log_fluorescence = 3.5, b_features = None\<rparr>, ex_fs)
   \<and> shape (Mat [[77, 83, 75, 71, 69], [77, 83, 75, 71, 69], [77, 83, 82, 71, 69 :: int]])
       = [3, 5]
   \<and> getitem ex_cached 0 ex_fs_cached =
     (Inr \<lparr>b_src_tokens = Vec [77, 83, 75, 71, 69], b_log_fluorescence = 3.5,
           b_features = Some \<lparr>tdata = Mat [[0.5, 1], [2, 0.25], [0, 1], [1, 1], [3, 2]],
                              requires_grad = False\<rparr>\<rparr>, ex_fs_cached)
   \<and> shape (Vec [77, 83, 75, 71, 69 :: int]) = [5]"
proof -
  have i: "0 \<le> (0::int)" by simp
  have m1: "0 < int (length (data ex_msa))" by (simp add: ex_defs)
  have m2: "maybe_align_sequence ex_msa (primary (data ex_msa ! nat 0)) = Inr ''MSKGE''"
    by (simp add: maybe_align_sequence_def ex_defs)
  have m3: "encode ex_msa ''MSKGE'' = Inr [77, 83, 75, 71, 69]" by (simp add: ex_defs)
  have m4: "log_fluorescence (data ex_msa ! nat 0) \<noteq> []" by (simp add: ex_defs)
  have m5: "use_msa ex_msa \<longrightarrow>
              msa ex_msa = Some [[77, 83, 75, 71, 69], [77, 83, 82, 71, 69]]
              \<and> (\<forall>r\<in>set [[77, 83, 75, 71, 69], [77, 83, 82, 71, 69 :: int]].
                    length r = length [77, 83, 75, 71, 69 :: int])"
    by (simp add: ex_defs)
  have m6: "return_cached_embeddings ex_msa \<longrightarrow>
              ex_fs (embedding_dir ex_msa) = Some Dir
              \<and> ex_fs (embedding_dir ex_msa @ [embedding_name ex_msa 0])
                  = Some (TensorFile ex_embedding)"
    by (simp add: ex_defs)
  have c1: "0 < int (length (data ex_cached))" by (simp add: ex_defs)
  have c2: "maybe_align_sequence ex_cached (primary (data ex_cached ! nat 0)) = Inr ''MSKGE''"
    by (simp add: maybe_align_sequence_def ex_defs)
  have c3: "encode ex_cached ''MSKGE'' = Inr [77, 83, 75, 71, 69]" by (simp add: ex_defs)
  have c4: "log_fluorescence (data ex_cached ! nat 0) \<noteq> []" by (simp add: ex_defs)
  have c5: "use_msa ex_cached \<longrightarrow>
              msa ex_cached = Some []
              \<and> (\<forall>r\<in>set []. length r = length [77, 83, 75, 71, 69 :: int])"
    by (simp add: ex_defs)
  have c6: "return_cached_embeddings ex_cached \<longrightarrow>
              ex_fs_cached (embedding_dir ex_cached) = Some Dir
              \<and> ex_fs_cached (embedding_dir ex_cached @ [embedding_name ex_cached 0])
                  = Some (TensorFile ex_embedding)"
    by (simp add: name_defs ex_defs)
  have u1: "use_msa ex_msa" "\<not> return_cached_embeddings ex_msa"
           "hd (log_fluorescence (data ex_msa ! nat 0)) = 3.5"
    by (simp_all add: ex_defs)
  have u2: "\<not> use_msa ex_cached" "return_cached_embeddings ex_cached"
           "hd (log_fluorescence (data ex_cached ! nat 0)) = 3.5"
    by (simp_all add: ex_defs)
  have e: "ex_embedding\<lparr>requires_grad := False\<rparr> =
             \<lparr>tdata = Mat [[0.5, 1], [2, 0.25], [0, 1], [1, 1], [3, 2]], requires_grad = False\<rparr>"
    by (simp add: ex_embedding_def)
  from getitem_shape [OF i m1 m2 m3 m4 m5 m6] u1
  have g1: "getitem ex_msa 0 ex_fs =
     (Inr \<lparr>b_src_tokens = Mat [[77, 83, 75, 71, 69], [77, 83, 75, 71, 69], [77, 83, 82, 71, 69]],
           b_log_fluorescence = 3.5, b_features = None\<rparr>, ex_fs)"
    by simp
  from getitem_shape [OF i c1 c2 c3 c4 c5 c6] u2 e
  have g2: "getitem ex_cached 0 ex_fs_cached =
     (Inr \<lparr>b_src_tokens = Vec [77, 83, 75, 71, 69], b_log_fluorescence = 3.5,
           b_features = Some \<lparr>tdata = Mat [[0.5, 1], [2, 0.25], [0, 1], [1, 1], [3, 2]],
                              requires_grad = False\<rparr>\<rparr>, ex_fs_cached)"
    by simp
  from g1 g2 show ?thesis by (simp add: width_def)
qed

section \<open>Collation\<close>

lemma max_list_ge: "n \<in> set ns \<Longrightarrow> n \<le> max_list ns"
  unfolding max_list_def by (induction ns) auto

lemma max_list_Max: "ns \<noteq> [] \<Longrightarrow> max_list ns = Max (set ns)"
  unfolding max_list_def
proof (induction ns)
  case Nil
  then show ?case by simp
next
  case (Cons n ns)
  show ?case
  proof (cases "ns = []")
    case True
    then show ?thesis by simp
  next
    case False
    with Cons show ?thesis by simp
  qed
qed

lemma max_list_zero: "max_list ns = 0 \<Longrightarrow> n \<in> set ns \<Longrightarrow> n = 0"
  using max_list_ge[of n ns] by simp

lemma max_list_const: "ns \<noteq> [] \<Longrightarrow> \<forall>n\<in>set ns. n = m \<Longrightarrow> max_list ns = m"
  unfolding max_list_def
proof (induction ns)
  case Nil
  then show ?case by simp
next
  case (Cons n ns)
  show ?case
  proof (cases "ns = []")
    case True
    with Cons.prems show ?thesis by simp
  next
    case False
    with Cons show ?thesis by simp
  qed
qed

lemma no_rows_no_width: "length (rows_of t) = 0 \<Longrightarrow> size_last t = 0"
  by (cases t) (simp_all add: width_def)

lemma ndim_one_rows: "ndim t = 1 \<Longrightarrow> length (rows_of t) = 1"
  by (cases t) simp_all

text \<open>
  What \<open>padded_from\<close> says of single entries: kept up to the true length, the pad value
  beyond it and in every added row.
\<close>

lemma padded_from_entries:
  assumes "padded_from c h w t t'"
  shows "k < length (rows_of t) \<Longrightarrow> j < length (rows_of t ! k) \<Longrightarrow>
           rows_of t' ! k ! j = rows_of t ! k ! j"
    and "k < length (rows_of t) \<Longrightarrow> length (rows_of t ! k) \<le> j \<Longrightarrow> j < w \<Longrightarrow>
           rows_of t' ! k ! j = c"
    and "length (rows_of t) \<le> k \<Longrightarrow> k < h \<Longrightarrow> j < w \<Longrightarrow> rows_of t' ! k ! j = c"
  using assms by (auto simp: padded_from_def nth_append)

text \<open>The relation determines the padded array.\<close>

lemma padded_from_unique:
  assumes "padded_from c h w t t1" and "padded_from c h w t t2"
  shows "t1 = t2"
proof -
  from assms have r: "rows_of t1 = rows_of t2"
    by (intro nth_equalityI) (simp_all add: padded_from_def)
  from assms have n: "ndim t1 = ndim t2" by (simp add: padded_from_def)
  from r n show ?thesis by (cases t1; cases t2) simp_all
qed

lemma pad_to_padded:
  assumes w: "size_last t \<le> w" and h: "length (rows_of t) \<le> h" and hw: "h = 0 \<longrightarrow> w = 0"
      and v: "ndim t = 1 \<longrightarrow> h = 1"
  shows "padded_from c h w t (pad_to h w c t)"
proof (cases t)
  case (Vec xs)
  with w v show ?thesis by (simp add: padded_from_def pad_row_def)
next
  case (Mat rs)
  have wd: "width (map (pad_row w c) rs @ replicate (h - length rs) (replicate w c)) = w"
  proof (cases rs)
    case Nil
    with hw show ?thesis by (cases h) (simp_all add: width_def)
  next
    case (Cons r rest)
    with w Mat show ?thesis by (simp add: width_def pad_row_def)
  qed
  show ?thesis
    using Mat h wd by (auto simp: padded_from_def nth_append pad_row_def)
qed

lemma pad_sequences_padded:
  assumes ne: "ts \<noteq> []" and sr: "same_rank ts"
  shows "\<exists>out. pad_sequences ts c = Inr out
            \<and> list_all2
                 (padded_from c (Max (set (map (\<lambda>u. length (rows_of u)) ts)))
                    (Max (set (map size_last ts)))) ts out"
proof -
  let ?h = "max_list (map (\<lambda>u. length (rows_of u)) ts)"
  let ?w = "max_list (map size_last ts)"
  from ne obtain t rest where ts: "ts = t # rest" by (cases ts) auto
  from sr ts have "list_all (\<lambda>u. ndim u = ndim t) rest" by (simp add: same_rank_def)
  with ts have ps: "pad_sequences ts c = Inr (map (pad_to ?h ?w c) ts)"
    by (simp add: pad_sequences_def)
  from sr have all_rank: "\<forall>u\<in>set ts. ndim u = ndim (hd ts)"
    by (simp add: same_rank_def list_all_iff)
  have hw: "?h = 0 \<longrightarrow> ?w = 0"
  proof
    assume h0: "?h = 0"
    have "\<forall>n\<in>set (map size_last ts). n = 0"
    proof
      fix n assume "n \<in> set (map size_last ts)"
      then obtain u where u: "u \<in> set ts" "n = size_last u" by auto
      then have "length (rows_of u) \<in> set (map (\<lambda>u. length (rows_of u)) ts)" by auto
      with h0 have "length (rows_of u) = 0" by (rule max_list_zero)
      with u show "n = 0" by (simp add: no_rows_no_width)
    qed
    then show "?w = 0" unfolding max_list_def by (induction ts) auto
  qed
  have vec: "ndim u = 1 \<longrightarrow> ?h = 1" if u: "u \<in> set ts" for u
  proof
    assume u1: "ndim u = 1"
    with all_rank u have "\<forall>v\<in>set ts. ndim v = 1" by metis
    then have "\<forall>n\<in>set (map (\<lambda>u. length (rows_of u)) ts). n = 1"
      by (auto simp: ndim_one_rows)
    moreover from ne have "map (\<lambda>u. length (rows_of u)) ts \<noteq> []" by simp
    ultimately show "?h = 1" by (rule max_list_const[rotated])
  qed
  have each: "\<forall>u\<in>set ts. padded_from c ?h ?w u (pad_to ?h ?w c u)"
  proof
    fix u assume u: "u \<in> set ts"
    then have "size_last u \<le> ?w" "length (rows_of u) \<le> ?h"
      by (auto intro!: max_list_ge)
    then show "padded_from c ?h ?w u (pad_to ?h ?w c u)"
      using hw vec[OF u] by (rule pad_to_padded)
  qed
  have "list_all2 (padded_from c ?h ?w) ts (map (pad_to ?h ?w c) ts)"
    using each by (simp add: list_all2_map2 list_all2_same)
  moreover have "?w = Max (set (map size_last ts))" using ne by (simp add: max_list_Max)
  moreover have "?h = Max (set (map (\<lambda>u. length (rows_of u)) ts))"
    using ne by (simp add: max_list_Max)
  ultimately show ?thesis using ps by simp
qed

lemma features_of_all:
  "list_all (\<lambda>el. b_features el \<noteq> None) els \<Longrightarrow>
   features_of els = Inr (map (\<lambda>el. tdata (the (b_features el))) els)"
  by (induction els) auto

lemma ex_collate_fn:
  "collate_fn ex_cached ex_batch =
     Inr \<lparr>net_input =
            \<lparr>src_tokens = [Vec [77, 83, 75, 71, 69], Vec [77, 83, 75, 0, 0]],
             src_lengths = [5, 3],
             features = Some [Mat [[0.5, 1], [2, 0.25], [0, 1], [1, 1], [3, 2]],
                              Mat [[1, 2], [3, 4], [5, 6], [0, 0], [0, 0]]]\<rparr>,
          targets = [[3.5], [1.25]]\<rparr>"
  by (simp add: collate_fn_def pad_sequences_def stack_column_def max_list_def pad_row_def
        width_def ex_defs numeral_2_eq_2 numeral_3_eq_3)

text \<open>
  Claim C2. For a non-empty batch of examples of one dataset (token arrays of one rank
  and, when cached embeddings are returned, a feature array of one rank in every
  example), \<open>collate_fn\<close> returns a batch in which every token array is the example's
  array right-padded with the pad index to the maximum unpadded width of the batch (and
  to the maximum number of rows), \<open>src_lengths\<close> holds the unpadded widths in order, the
  targets form a column with one entry per example, and the feature arrays, when cached
  embeddings are returned, are right-padded with zeros to the maximum number of rows and
  the maximum width over the batch (and are absent otherwise).
\<close>

theorem collate_fn_pads:
  assumes ne: "els \<noteq> []"
      and rank: "same_rank (map b_src_tokens els)"
      and feats: "return_cached_embeddings ds \<longrightarrow>
                    list_all (\<lambda>el. b_features el \<noteq> None) els
                    \<and> same_rank (map (\<lambda>el. tdata (the (b_features el))) els)"
  shows "\<exists>out. collate_fn ds els = Inr out
           \<and> list_all2
                (padded_from (pad_idx ds)
                   (Max (set (map (\<lambda>t. length (rows_of t)) (map b_src_tokens els))))
                   (Max (set (map size_last (map b_src_tokens els)))))
                (map b_src_tokens els) (src_tokens (net_input out))
           \<and> src_lengths (net_input out) = map (\<lambda>el. int (size_last (b_src_tokens el))) els
           \<and> targets out = map (\<lambda>el. [b_log_fluorescence el]) els
           \<and> (if return_cached_embeddings ds
               then \<exists>padded. features (net_input out) = Some padded
                      \<and> list_all2
                           (padded_from 0
                              (Max (set (map (\<lambda>t. length (rows_of t))
                                           (map (\<lambda>el. tdata (the (b_features el))) els))))
                              (Max (set (map size_last
                                           (map (\<lambda>el. tdata (the (b_features el))) els)))))
                           (map (\<lambda>el. tdata (the (b_features el))) els) padded
               else features (net_input out) = None)"
proof -
  let ?toks = "map b_src_tokens els"
  let ?fs = "map (\<lambda>el. tdata (the (b_features el))) els"
  from ne have ne': "?toks \<noteq> []" by simp
  from pad_sequences_padded [OF ne' rank, of "pad_idx ds"] obtain toks where
    pt: "pad_sequences ?toks (pad_idx ds) = Inr toks"
    and lt: "list_all2 (padded_from (pad_idx ds)
                          (Max (set (map (\<lambda>t. length (rows_of t)) ?toks)))
                          (Max (set (map size_last ?toks)))) ?toks toks"
    by blast
  from ne have col: "stack_column (map b_log_fluorescence els) =
                       Inr (map (\<lambda>v. [v]) (map b_log_fluorescence els))"
    by (simp add: stack_column_def)
  show ?thesis
  proof (cases "return_cached_embeddings ds")
    case False
    then have "collate_fn ds els =
       Inr \<lparr>net_input = \<lparr>src_tokens = toks,
                           src_lengths = map (\<lambda>el. int (size_last (b_src_tokens el))) els,
                           features = None\<rparr>,
            targets = map (\<lambda>v. [v]) (map b_log_fluorescence els)\<rparr>"
      unfolding collate_fn_def by (simp only: pt col sum.case if_False)
    with lt False show ?thesis by (simp add: comp_def)
  next
    case True
    with feats have fo: "features_of els = Inr ?fs" and sr: "same_rank ?fs"
      by (simp_all add: features_of_all)
    from ne have nf: "?fs \<noteq> []" by simp
    from pad_sequences_padded [OF nf sr, of 0] obtain padded where
      pf: "pad_sequences ?fs 0 = Inr padded"
      and lf: "list_all2 (padded_from 0 (Max (set (map (\<lambda>t. length (rows_of t)) ?fs)))
                            (Max (set (map size_last ?fs)))) ?fs padded"
      by blast
    from True have "collate_fn ds els =
       Inr \<lparr>net_input = \<lparr>src_tokens = toks,
                           src_lengths = map (\<lambda>el. int (size_last (b_src_tokens el))) els,
                           features = Some padded\<rparr>,
            targets = map (\<lambda>v. [v]) (map b_log_fluorescence els)\<rparr>"
      unfolding collate_fn_def by (simp only: pt col fo pf sum.case if_True)
    with lt lf True show ?thesis by (simp add: comp_def)
  qed
qed

theorem collate_fn_pads_witness:
  "ex_batch \<noteq> [] \<and> same_rank (map b_src_tokens ex_batch)
   \<and> collate_fn ex_cached ex_batch =
     Inr \<lparr>net_input =
            \<lparr>src_tokens = [Vec [77, 83, 75, 71, 69], Vec [77, 83, 75, 0, 0]],
             src_lengths = [5, 3],
             features = Some [Mat [[0.5, 1], [2, 0.25], [0, 1], [1, 1], [3, 2]],
                              Mat [[1, 2], [3, 4], [5, 6], [0, 0], [0, 0]]]\<rparr>,
          targets = [[3.5], [1.25]]\<rparr>"
proof -
  have a: "ex_batch \<noteq> []" by (simp add: ex_batch_def)
  have b: "same_rank (map b_src_tokens ex_batch)" by (simp add: same_rank_def ex_batch_def)
  have c: "return_cached_embeddings ex_cached \<longrightarrow>
             list_all (\<lambda>el. b_features el \<noteq> None) ex_batch
             \<and> same_rank (map (\<lambda>el. tdata (the (b_features el))) ex_batch)"
    by (simp add: same_rank_def ex_batch_def)
  from collate_fn_pads [OF a b c] a b ex_collate_fn show ?thesis by simp
qed

section \<open>The degenerate attention mask\<close>

lemma fill_all:
  "length ms = length ss \<Longrightarrow> \<forall>b\<in>set ms. b \<Longrightarrow>
   map (\<lambda>(s, b). if b then v else s) (zip ss ms) = replicate (length ss) v"
  by (induction ms ss rule: list_induct2) auto

lemma masked_fill_row:
  "b < length scores \<Longrightarrow> b < length m \<Longrightarrow>
   masked_fill scores m v ! b = map (\<lambda>(s, b). if b then v else s) (zip (scores ! b) (m ! b))"
  by (simp add: masked_fill_def)

text \<open>
  Claim C8, as stated, fails: \<open>forward\<close> neither clamps nor rejects. In a batch of two
  examples of padded token width 5, with a base model that returns three feature
  positions, the second example has \<open>src_lengths\<close> 2 and so the effective length
  \<open>2 - (5 - 3) = 0\<close>; the call returns, and the scores of all three positions of that
  example are the fill value.
\<close>

theorem forward_scores_unclamped_counterexample:
  "forward_scores ex_predictor [Vec [2, 77, 83, 75, 3], Vec [2, 3, 0, 0, 0]] [5, 2]
     (Some [[[1, 0, 2, 1], [0, 4, 0, 0], [3, 2, 2, 1]], [[1, 1, 1, 1], [2, 0, 0, 2], [0, 0, 0, 0]]])
   = Inr [[2, 2, 4], [- 10000, - 10000, - 10000]]
   \<and> [5, 2] ! 1 - (int (size1 [Vec [2, 77, 83, 75, 3], Vec [2, 3, 0, 0, 0 :: int]]) - int 3)
       = (0::int)"
  by (simp add: forward_scores_def seqlen_mask_def masked_fill_def size1_def width_def
        ex_predictor_def upt_rec)

text \<open>
  Claim C8, amended. For an example whose effective length, \<open>src_lengths\<close> minus the
  difference between token length and feature length, is not positive, \<open>forward\<close> does
  not raise (once it has features, passed in or extracted), and the attention score of
  every feature position of that example is the fill value \<open>-10000\<close>: the softmax
  that follows runs over masked positions only.
\<close>

theorem forward_scores_degenerate:
  assumes ext: "feats_opt = Some feats \<or> (feats_opt = None \<and> base_extract m toks lens = Inr feats)"
      and b: "b < length lens" "b < length feats"
      and rect: "length (feats ! b) = width feats"
      and deg: "lens ! b - (int (size1 toks) - int (width feats)) \<le> 0"
  shows "\<exists>scores. forward_scores m toks lens feats_opt = Inr scores
           \<and> scores ! b = replicate (width feats) (- 10000)"
proof -
  let ?L = "width feats"
  let ?aw = "map (map (\<lambda>x. compute_attention_weights m x / sqrt (real (width (concat feats)))))
               feats"
  let ?mask = "seqlen_mask ?L (map (\<lambda>l. l - (int (size1 toks) - int ?L)) lens)"
  from ext have fw: "forward_scores m toks lens feats_opt =
                       Inr (masked_fill ?aw (map (map Not) ?mask) (- 10000))"
    by (auto simp: forward_scores_def Let_def)
  from b deg have mrow: "map (map Not) ?mask ! b = replicate ?L True"
    by (simp add: seqlen_mask_def map_replicate_const[symmetric] del: replicate.simps)
       (auto intro!: nth_equalityI)
  from b have "masked_fill ?aw (map (map Not) ?mask) (- 10000) ! b =
        map (\<lambda>(s, b). if b then - 10000 else s) (zip (?aw ! b) (map (map Not) ?mask ! b))"
    by (intro masked_fill_row) (simp_all add: seqlen_mask_def)
  also have "\<dots> = replicate (length (?aw ! b)) (- 10000)"
    using b rect by (intro fill_all) (simp_all add: mrow)
  also have "length (?aw ! b) = ?L" using b rect by simp
  finally show ?thesis using fw by simp
qed

theorem forward_scores_degenerate_witness:
  "\<exists>scores.
     forward_scores ex_predictor [Vec [2, 77, 83, 75, 3], Vec [2, 3, 0, 0, 0]] [5, 2]
       (Some [[[1, 0, 2, 1], [0, 4, 0, 0], [3, 2, 2, 1]],
              [[1, 1, 1, 1], [2, 0, 0, 2], [0, 0, 0, 0]]]) = Inr scores
     \<and> scores ! 1 = [- 10000, - 10000, - 10000]"
proof -
  let ?feats = "[[[1, 0, 2, 1], [0, 4, 0, 0], [3, 2, 2, 1]],
                 [[1, 1, 1, 1], [2, 0, 0, 2], [0, 0, 0, 0 :: real]]]"
  let ?toks = "[Vec [2, 77, 83, 75, 3], Vec [2, 3, 0, 0, 0 :: int]]"
  have e: "Some ?feats = Some ?feats
           \<or> (Some ?feats = None \<and> base_extract ex_predictor ?toks [5, 2] = Inr ?feats)"
    by simp
  have b1: "1 < length [5, 2 :: int]" by simp
  have b2: "1 < length ?feats" by simp
  have r: "length (?feats ! 1) = width ?feats" by (simp add: width_def)
  have d: "[5, 2] ! 1 - (int (size1 ?toks) - int (width ?feats)) \<le> 0"
    by (simp add: size1_def width_def)
  from forward_scores_degenerate [OF e b1 b2 r d]
  show ?thesis by (simp add: width_def numeral_3_eq_3)
qed

end
